theory Spec2Isabelle
  imports Main "HOL-Library.Word" "HOL-Library.Char_ord" "HOL-Library.List_Lexorder"
begin

section \<open>The task store and run ledger of kv/task.go\<close>

text \<open>
  The Go file under study (package \<open>kv\<close>) keeps tasks and their runs in three buckets of a
  transactional key-value store. It is embedded here function by function, with the
  source's names. What the file only uses (identifiers, the records, JSON, the time
  library, the cron and duration parsers, the store) is not part of it; each such piece is
  introduced below with a note on what stands for it.
\<close>

subsection \<open>Identifiers and keys\<close>

text \<open>
  Modelled from the spec: the type \<open>influxdb.ID\<close> and its \<open>Encode\<close> method are not among
  the source files. An ID is an unsigned 64-bit number; \<open>Encode\<close> fails on the invalid
  ID 0 and otherwise gives the 16 lower-case hexadecimal digits of the number, most
  significant first.
\<close>

type_synonym ID = "64 word"

definition hexdigit :: "nat \<Rightarrow> char" where
  "hexdigit n = ''0123456789abcdef'' ! n"

definition Encode :: "ID \<Rightarrow> string option" where
  "Encode i = (if i = 0 then None
     else Some (map (\<lambda>k. hexdigit (unat (take_bit 4 (drop_bit (4 * k) i)))) (rev [0..<16])))"

subsection \<open>Time\<close>

text \<open>
  An instant (Go's \<open>time.Time\<close>) is a number of nanoseconds since the Unix epoch; Unix
  timestamps (\<open>int64\<close> in the source) are whole seconds and unbounded here.
  \<open>zero_time\<close> is \<open>time.Time{}\<close>, the first of January of the year 1.

  Two things the source's times have are left out. An instant carries no time zone:
  where the source formats a time without converting it to UTC first (the log time of
  \<open>addRunLog\<close>, the \<open>LatestCompleted\<close> field that \<open>findTaskByID\<close> fills in), the model
  prints the instant as the library prints a UTC time. And \<open>time_Unix\<close> does not wrap:
  Go's \<open>time.Unix\<close> adds the seconds between the years 1 and 1970 in 64-bit arithmetic,
  which overflows for timestamps above 9223371974719179007, some 292 billion years
  ahead; the model is meant for timestamps below that.
\<close>

type_synonym instant = int

definition zero_time :: instant where
  "zero_time = - 62135596800 * 1000000000"

definition time_Unix :: "int \<Rightarrow> instant" where
  "time_Unix sec = sec * 1000000000"

definition Unix :: "instant \<Rightarrow> int" where
  "Unix t = t div 1000000000"

definition After :: "instant \<Rightarrow> instant \<Rightarrow> bool" where
  "After t u = (u < t)"

definition IsZero :: "instant \<Rightarrow> bool" where
  "IsZero t = (t = zero_time)"

text \<open>
  The libraries the file calls are parameters of the model, gathered in one record:
  \<^item> \<open>time_Parse s\<close> is \<open>time.Parse(time.RFC3339, s)\<close>, \<open>None\<close> for the error;
  \<^item> \<open>time_Format t\<close> is \<open>t.Format(time.RFC3339)\<close> and \<open>time_FormatNano t\<close> is
    \<open>t.Format(time.RFC3339Nano)\<close>, of an instant in UTC;
  \<^item> \<open>cron_Parse s\<close> is \<open>cron.Parse(s)\<close>; a schedule is its \<open>Next\<close> function;
  \<^item> \<open>Duration_Parse s\<close> is \<open>options.Duration.Parse(s)\<close>; a parsed duration is its
    \<open>Add\<close> function, which may fail;
  \<^item> \<open>TaskMaxPageSize\<close> is the constant \<open>influxdb.TaskMaxPageSize\<close>.
\<close>

record library =
  time_Parse :: "string \<Rightarrow> instant option"
  time_Format :: "instant \<Rightarrow> string"
  time_FormatNano :: "instant \<Rightarrow> string"
  cron_Parse :: "string \<Rightarrow> (instant \<Rightarrow> instant) option"
  Duration_Parse :: "string \<Rightarrow> (instant \<Rightarrow> instant option) option"
  TaskMaxPageSize :: int

subsection \<open>Errors\<close>

text \<open>
  The error values of the source's \<open>var\<close> block and its four error constructors, with the
  code each carries. \<open>backend_ErrTaskNotFound\<close>, \<open>RunNotYetDueError\<close> come from package
  \<open>backend\<close>; \<open>time_ParseError\<close> is the error of \<open>time.Parse\<close> where the source passes it
  on unwrapped, \<open>kv_err\<close> an error of the store passed on unwrapped.
\<close>

datatype kv_error = ErrKeyNotFound | ErrStorageFault

datatype code = EInvalid | ENotFound | EConflict | EInternal

datatype error =
    ErrInvalidTaskID
  | ErrRunNotFound
  | ErrTaskRunAlreadyQueued
  | ErrInternalTaskServiceError
  | ErrUnexpectedTaskBucketErr kv_error
  | ErrTaskTimeParse
  | backend_ErrTaskNotFound
  | RunNotYetDueError int
  | time_ParseError
  | kv_err kv_error

fun Code :: "error \<Rightarrow> code option" where
  "Code ErrInvalidTaskID = Some EInvalid"
| "Code ErrRunNotFound = Some ENotFound"
| "Code ErrTaskRunAlreadyQueued = Some EConflict"
| "Code ErrInternalTaskServiceError = Some EInternal"
| "Code (ErrUnexpectedTaskBucketErr err) = Some EInternal"
| "Code ErrTaskTimeParse = Some EInvalid"
| "Code backend_ErrTaskNotFound = None"
| "Code (RunNotYetDueError dueAt) = None"
| "Code time_ParseError = None"
| "Code (kv_err err) = None"

subsection \<open>Tasks and runs\<close>

text \<open>
  Modelled from the spec: the records \<open>influxdb.Task\<close>, \<open>influxdb.Run\<close>, \<open>influxdb.Log\<close>,
  \<open>backend.QueuedRun\<close>, \<open>backend.RunCreation\<close>, the type \<open>backend.RunStatus\<close> and the
  methods \<open>EffectiveCron\<close>, \<open>ScheduledForTime\<close>, \<open>RequestedAtTime\<close> are declared outside
  the source files. The records have the fields the file reads and writes, time fields
  being RFC3339 strings; a task's effective schedule is its cron expression or else its
  interval written \<open>@every\<close>; \<open>ScheduledForTime\<close> parses the field.

  \<open>RequestedAtTime\<close> answers the zero time for an empty field and parses any other. The
  field is empty by design: only forced runs have a request time, \<open>retryRun\<close> clears it
  on the copy it queues, and \<open>createNextRun\<close>, which hands out the queued runs, tests
  the accessor's result with \<open>IsZero\<close> before it uses it.
\<close>

record Log =
  Time :: string
  Message :: string

record Task =
  ID :: ID
  OrganizationID :: ID
  Name :: string
  Status :: string
  Every :: string
  Cron :: string
  Offset :: string
  LatestCompleted :: string
  CreatedAt :: string
  UpdatedAt :: string

record QueuedRun =
  TaskID :: ID
  RunID :: ID
  Now :: int
  RequestedAt :: int

record RunCreation =
  Created :: QueuedRun
  NextDue :: int
  HasQueue :: bool

record Run =
  ID :: ID
  TaskID :: ID
  Status :: string
  ScheduledFor :: string
  StartedAt :: string
  FinishedAt :: string
  RequestedAt :: string
  Log :: "Log list"

datatype RunStatus = RunStarted | RunSuccess | RunFail | RunCanceled | RunScheduled

fun String :: "RunStatus \<Rightarrow> string" where
  "String RunStarted = ''started''"
| "String RunSuccess = ''success''"
| "String RunFail = ''failed''"
| "String RunCanceled = ''canceled''"
| "String RunScheduled = ''scheduled''"

definition EffectiveCron :: "Task \<Rightarrow> string" where
  "EffectiveCron t =
     (if Task.Cron t \<noteq> [] then Task.Cron t
      else if Task.Every t \<noteq> [] then ''@every '' @ Task.Every t
      else [])"

definition ScheduledForTime :: "library \<Rightarrow> Run \<Rightarrow> error + instant" where
  "ScheduledForTime e r =
     (case time_Parse e (Run.ScheduledFor r) of None \<Rightarrow> Inl time_ParseError | Some t \<Rightarrow> Inr t)"

definition RequestedAtTime :: "library \<Rightarrow> Run \<Rightarrow> error + instant" where
  "RequestedAtTime e r =
     (if Run.RequestedAt r = [] then Inr zero_time
      else (case time_Parse e (Run.RequestedAt r) of None \<Rightarrow> Inl time_ParseError
            | Some t \<Rightarrow> Inr t))"

subsection \<open>The store\<close>

text \<open>
  Modelled from the spec: the store (\<open>Tx\<close>, \<open>Bucket\<close>, \<open>Cursor\<close>) is an interface
  implemented elsewhere. A bucket is a list of key-value pairs; \<open>Get\<close> fails with
  \<open>ErrKeyNotFound\<close> on an absent key, \<open>Put\<close> replaces or inserts so that a list in key
  order stays so, \<open>Delete\<close> removes, and a cursor positioned by \<open>Seek\<close> walks the pairs
  from the first key not below the sought one. A transaction sees the three buckets
  \<open>tasksv1\<close>, \<open>taskRunsv1\<close>, \<open>taskIndexsv1\<close>. In this store \<open>tx.Bucket\<close>, \<open>Cursor\<close>,
  \<open>Put\<close> and \<open>Delete\<close> always succeed, so the checks the source makes right after them
  have no counterpart below.

  A stored value is the document itself rather than its JSON text: \<open>json.Marshal\<close> is
  the constructor (it does not fail on these records), \<open>json.Unmarshal\<close> into a record
  or a list fails on a value of another shape. \<open>Bytes\<close> is a raw byte string.
\<close>

datatype stored = JTask Task | JRun Run | JRuns "Run list" | Bytes string

type_synonym bucket = "(string \<times> stored) list"

record Tx =
  taskBucket :: bucket
  taskRunBucket :: bucket
  taskIndexBucket :: bucket

definition Get :: "bucket \<Rightarrow> string \<Rightarrow> kv_error + stored" where
  "Get b key = (case map_of b key of None \<Rightarrow> Inl ErrKeyNotFound | Some v \<Rightarrow> Inr v)"

fun Put :: "bucket \<Rightarrow> string \<Rightarrow> stored \<Rightarrow> bucket" where
  "Put [] key v = [(key, v)]"
| "Put ((k, w) # b) key v =
     (if key < k then (key, v) # (k, w) # b
      else if key = k then (key, v) # b
      else (k, w) # Put b key v)"

definition Delete :: "bucket \<Rightarrow> string \<Rightarrow> bucket" where
  "Delete b key = filter (\<lambda>(k, w). k \<noteq> key) b"

definition Seek :: "bucket \<Rightarrow> string \<Rightarrow> bucket" where
  "Seek b key = dropWhile (\<lambda>(k, w). k < key) b"

definition IsNotFound :: "kv_error \<Rightarrow> bool" where
  "IsNotFound err = (err = ErrKeyNotFound)"

definition unmarshalTask :: "stored \<Rightarrow> Task option" where
  "unmarshalTask v = (case v of JTask t \<Rightarrow> Some t | _ \<Rightarrow> None)"

definition unmarshalRun :: "stored \<Rightarrow> Run option" where
  "unmarshalRun v = (case v of JRun r \<Rightarrow> Some r | _ \<Rightarrow> None)"

definition unmarshalRuns :: "stored \<Rightarrow> Run list option" where
  "unmarshalRuns v = (case v of JRuns rs \<Rightarrow> Some rs | _ \<Rightarrow> None)"

text \<open>
  \<open>kv.Update\<close> runs a function in a read-write transaction: its writes are kept when it
  returns no error and dropped when it returns one. \<open>kv.View\<close> is the read-only form.
\<close>

definition Update :: "(Tx \<Rightarrow> error + 'a \<times> Tx) \<Rightarrow> Tx \<Rightarrow> (error + 'a) \<times> Tx" where
  "Update fn s = (case fn s of Inl err \<Rightarrow> (Inl err, s) | Inr (x, s') \<Rightarrow> (Inr x, s'))"

definition View :: "(Tx \<Rightarrow> error + 'a) \<Rightarrow> Tx \<Rightarrow> error + 'a" where
  "View fn s = fn s"

text \<open>Go's \<open>strings.HasPrefix\<close> and \<open>strings.HasSuffix\<close>.\<close>

definition HasPrefix :: "string \<Rightarrow> string \<Rightarrow> bool" where
  "HasPrefix s p = (length p \<le> length s \<and> take (length p) s = p)"

definition HasSuffix :: "string \<Rightarrow> string \<Rightarrow> bool" where
  "HasSuffix s suf = (length suf \<le> length s \<and> drop (length s - length suf) s = suf)"

subsection \<open>Keys\<close>

definition taskKey :: "ID \<Rightarrow> error + string" where
  "taskKey taskID =
     (case Encode taskID of None \<Rightarrow> Inl ErrInvalidTaskID | Some encodedID \<Rightarrow> Inr encodedID)"

definition taskLatestCompletedKey :: "ID \<Rightarrow> error + string" where
  "taskLatestCompletedKey taskID =
     (case Encode taskID of None \<Rightarrow> Inl ErrInvalidTaskID
      | Some encodedID \<Rightarrow> Inr (encodedID @ ''/latestCompleted''))"

definition taskManualRunKey :: "ID \<Rightarrow> error + string" where
  "taskManualRunKey taskID =
     (case Encode taskID of None \<Rightarrow> Inl ErrInvalidTaskID
      | Some encodedID \<Rightarrow> Inr (encodedID @ ''/manualRuns''))"

definition taskOrgKey :: "ID \<Rightarrow> ID \<Rightarrow> error + string" where
  "taskOrgKey orgID taskID =
     (case Encode orgID of None \<Rightarrow> Inl ErrInvalidTaskID
      | Some encodedOrgID \<Rightarrow>
          (case Encode taskID of None \<Rightarrow> Inl ErrInvalidTaskID
           | Some encodedID \<Rightarrow> Inr (encodedOrgID @ ''/'' @ encodedID)))"

definition taskRunKey :: "ID \<Rightarrow> ID \<Rightarrow> error + string" where
  "taskRunKey taskID runID =
     (case Encode taskID of None \<Rightarrow> Inl ErrInvalidTaskID
      | Some encodedID \<Rightarrow>
          (case Encode runID of None \<Rightarrow> Inl ErrInvalidTaskID
           | Some encodedRunID \<Rightarrow> Inr (encodedID @ ''/'' @ encodedRunID)))"

subsection \<open>Reading the run ledger\<close>

definition findLatestCompleted :: "Tx \<Rightarrow> ID \<Rightarrow> error + Run option" where
  "findLatestCompleted tx taskID =
     (case taskLatestCompletedKey taskID of Inl err \<Rightarrow> Inl err
      | Inr key \<Rightarrow>
          (case Get (taskRunBucket tx) key of
             Inl err \<Rightarrow>
               (if err = ErrKeyNotFound then Inr None else Inl (ErrUnexpectedTaskBucketErr err))
           | Inr bytes \<Rightarrow>
               (case unmarshalRun bytes of None \<Rightarrow> Inl ErrInternalTaskServiceError
                | Some run \<Rightarrow> Inr (Some run))))"

definition findLatestCompletedTime :: "library \<Rightarrow> Tx \<Rightarrow> ID \<Rightarrow> error + instant" where
  "findLatestCompletedTime e tx taskID =
     (case findLatestCompleted tx taskID of Inl err \<Rightarrow> Inl err
      | Inr None \<Rightarrow> Inr zero_time
      | Inr (Some run) \<Rightarrow> ScheduledForTime e run)"

definition findTaskByID :: "library \<Rightarrow> Tx \<Rightarrow> ID \<Rightarrow> error + Task" where
  "findTaskByID e tx taskID =
     (case taskKey taskID of Inl err \<Rightarrow> Inl err
      | Inr key \<Rightarrow>
          (case Get (taskBucket tx) key of
             Inl err \<Rightarrow> (if IsNotFound err then Inl backend_ErrTaskNotFound else Inl (kv_err err))
           | Inr v \<Rightarrow>
               (case unmarshalTask v of None \<Rightarrow> Inl ErrInternalTaskServiceError
                | Some t \<Rightarrow>
                    (case findLatestCompletedTime e tx (Task.ID t) of Inl err \<Rightarrow> Inl err
                     | Inr latestCompleted \<Rightarrow>
                         (if \<not> IsZero latestCompleted
                          then Inr (t\<lparr>LatestCompleted := time_Format e latestCompleted\<rparr>)
                          else Inr (t\<lparr>LatestCompleted := CreatedAt t\<rparr>))))))"

definition manualRuns :: "Tx \<Rightarrow> ID \<Rightarrow> error + Run list" where
  "manualRuns tx taskID =
     (case taskManualRunKey taskID of Inl err \<Rightarrow> Inl err
      | Inr key \<Rightarrow>
          (case Get (taskRunBucket tx) key of
             Inl err \<Rightarrow>
               (if err = ErrKeyNotFound then Inr [] else Inl (ErrUnexpectedTaskBucketErr err))
           | Inr val \<Rightarrow>
               (case unmarshalRuns val of None \<Rightarrow> Inl ErrInternalTaskServiceError
                | Some runs \<Rightarrow> Inr runs)))"

text \<open>
  The cursor loop of \<open>currentlyRunning\<close>: the first argument is what the cursor still has
  to yield, the last the runs collected so far.
\<close>

fun currentlyRunning_loop :: "bucket \<Rightarrow> string \<Rightarrow> ID \<Rightarrow> Run list \<Rightarrow> error + Run list" where
  "currentlyRunning_loop [] tkey taskID runs = Inr runs"
| "currentlyRunning_loop ((k, v) # c) tkey taskID runs =
     (if \<not> HasPrefix k tkey then Inr runs
      else if HasSuffix k ''manualRuns'' \<or> HasSuffix k ''latestCompleted''
      then currentlyRunning_loop c tkey taskID runs
      else (case unmarshalRun v of None \<Rightarrow> Inl ErrInternalTaskServiceError
            | Some r \<Rightarrow>
                (if Run.TaskID r \<noteq> taskID then Inr runs
                 else currentlyRunning_loop c tkey taskID (runs @ [r]))))"

definition currentlyRunning :: "Tx \<Rightarrow> ID \<Rightarrow> error + Run list" where
  "currentlyRunning tx taskID =
     (case taskKey taskID of Inl err \<Rightarrow> Inl err
      | Inr tkey \<Rightarrow>
          currentlyRunning_loop (Seek (taskRunBucket tx) tkey) tkey taskID [])"

text \<open>
  The two \<open>for\<close> loops of \<open>findRuns\<close>: append run by run, and return as soon as the limit
  is reached (the flag says whether that happened).
\<close>

fun findRuns_append :: "Run list \<Rightarrow> Run list \<Rightarrow> int \<Rightarrow> Run list \<times> bool" where
  "findRuns_append runs [] limit = (runs, False)"
| "findRuns_append runs (run # rest) limit =
     (if limit \<le> int (length (runs @ [run])) then (runs @ [run], True)
      else findRuns_append (runs @ [run]) rest limit)"

definition findRuns :: "library \<Rightarrow> Tx \<Rightarrow> ID \<Rightarrow> int \<Rightarrow> error + Run list" where
  "findRuns e tx task limit0 =
     (let limit = (if limit0 = 0 \<or> TaskMaxPageSize e < limit0 then TaskMaxPageSize e else limit0)
      in case manualRuns tx task of Inl err \<Rightarrow> Inl err
         | Inr manual \<Rightarrow>
             (case findRuns_append [] manual limit of
                (runs, True) \<Rightarrow> Inr runs
              | (runs, False) \<Rightarrow>
                  (case currentlyRunning tx task of Inl err \<Rightarrow> Inl err
                   | Inr running \<Rightarrow> Inr (fst (findRuns_append runs running limit)))))"

definition findRunByID :: "Tx \<Rightarrow> ID \<Rightarrow> ID \<Rightarrow> error + Run" where
  "findRunByID tx taskID runID =
     (case taskRunKey taskID runID of Inl err \<Rightarrow> Inl err
      | Inr key \<Rightarrow>
          (case Get (taskRunBucket tx) key of
             Inl err \<Rightarrow>
               (if err \<noteq> ErrKeyNotFound then Inl ErrRunNotFound
                else Inl (ErrUnexpectedTaskBucketErr err))
           | Inr runBytes \<Rightarrow>
               (case unmarshalRun runBytes of None \<Rightarrow> Inl ErrInternalTaskServiceError
                | Some run \<Rightarrow> Inr run)))"

definition FindRunByID :: "ID \<Rightarrow> ID \<Rightarrow> Tx \<Rightarrow> error + Run" where
  "FindRunByID taskID runID = View (\<lambda>tx. findRunByID tx taskID runID)"

subsection \<open>Deleting a task\<close>

text \<open>The \<open>for\<close> loop of \<open>deleteTask\<close> over the runs \<open>findRuns\<close> returned.\<close>

fun deleteTask_runs :: "bucket \<Rightarrow> ID \<Rightarrow> Run list \<Rightarrow> error + bucket" where
  "deleteTask_runs runBucket taskID [] = Inr runBucket"
| "deleteTask_runs runBucket taskID (run # rest) =
     (case taskRunKey taskID (Run.ID run) of Inl err \<Rightarrow> Inl err
      | Inr key \<Rightarrow> deleteTask_runs (Delete runBucket key) taskID rest)"

definition deleteTask :: "library \<Rightarrow> Tx \<Rightarrow> ID \<Rightarrow> error + unit \<times> Tx" where
  "deleteTask e tx taskID =
     (case findTaskByID e tx taskID of Inl err \<Rightarrow> Inl err
      | Inr task \<Rightarrow>
     (case taskOrgKey (OrganizationID task) (Task.ID task) of Inl err \<Rightarrow> Inl err
      | Inr orgKey \<Rightarrow>
     (let tx1 = tx\<lparr>taskIndexBucket := Delete (taskIndexBucket tx) orgKey\<rparr>
      in case taskLatestCompletedKey (Task.ID task) of Inl err \<Rightarrow> Inl err
      | Inr lastCompletedKey \<Rightarrow>
     (let tx2 = tx1\<lparr>taskRunBucket := Delete (taskRunBucket tx1) lastCompletedKey\<rparr>
      in case findRuns e tx2 (Task.ID task) 0 of Inl err \<Rightarrow> Inl err
      | Inr runs \<Rightarrow>
     (case deleteTask_runs (taskRunBucket tx2) (Task.ID task) runs of Inl err \<Rightarrow> Inl err
      | Inr runBucket \<Rightarrow>
     (case taskKey (Task.ID task) of Inl err \<Rightarrow> Inl err
      | Inr key \<Rightarrow>
          Inr ((), tx2\<lparr>taskRunBucket := runBucket,
                       taskBucket := Delete (taskBucket tx2) key\<rparr>)))))))"

definition DeleteTask :: "library \<Rightarrow> ID \<Rightarrow> Tx \<Rightarrow> (error + unit) \<times> Tx" where
  "DeleteTask e taskID = Update (\<lambda>tx. deleteTask e tx taskID)"

subsection \<open>Cancelling, retrying and forcing runs\<close>

definition cancelRun :: "Tx \<Rightarrow> ID \<Rightarrow> ID \<Rightarrow> error + unit \<times> Tx" where
  "cancelRun tx taskID runID =
     (case findRunByID tx taskID runID of Inl err \<Rightarrow> Inl err
      | Inr run \<Rightarrow>
     (let run = run\<lparr>Run.Status := ''canceled''\<rparr>;
          bucket = taskBucket tx
      in case taskRunKey taskID runID of Inl err \<Rightarrow> Inl err
      | Inr runKey \<Rightarrow> Inr ((), tx\<lparr>taskBucket := Put bucket runKey (JRun run)\<rparr>)))"

definition CancelRun :: "ID \<Rightarrow> ID \<Rightarrow> Tx \<Rightarrow> (error + unit) \<times> Tx" where
  "CancelRun taskID runID = Update (\<lambda>tx. cancelRun tx taskID runID)"

text \<open>
  \<open>s.IDGenerator.ID()\<close> and \<open>time.Now()\<close> are inputs of the model: the argument \<open>newID\<close>
  is the identifier the generator hands out during the call, \<open>wall\<close> the clock's reading.
\<close>

definition retryRun :: "Tx \<Rightarrow> ID \<Rightarrow> ID \<Rightarrow> ID \<Rightarrow> error + Run \<times> Tx" where
  "retryRun tx taskID runID newID =
     (case findRunByID tx taskID runID of Inl err \<Rightarrow> Inl err
      | Inr r \<Rightarrow>
     (let r = r\<lparr>Run.ID := newID, Run.Status := [], Run.StartedAt := [],
                Run.FinishedAt := [], Run.RequestedAt := []\<rparr>;
          bucket = taskRunBucket tx
      in case taskManualRunKey taskID of Inl err \<Rightarrow> Inl err
      | Inr key \<Rightarrow>
     (case Get bucket key of
        Inl err \<Rightarrow>
          (if err \<noteq> ErrKeyNotFound then Inl ErrRunNotFound
           else Inl (ErrUnexpectedTaskBucketErr err))
      | Inr runsBytes \<Rightarrow>
     (case unmarshalRuns runsBytes of None \<Rightarrow> Inl ErrInternalTaskServiceError
      | Some runs \<Rightarrow>
          Inr (r, tx\<lparr>taskRunBucket := Put bucket key (JRuns (runs @ [r]))\<rparr>)))))"

definition RetryRun :: "ID \<Rightarrow> ID \<Rightarrow> ID \<Rightarrow> Tx \<Rightarrow> (error + Run) \<times> Tx" where
  "RetryRun taskID runID newID = Update (\<lambda>tx. retryRun tx taskID runID newID)"

definition forceRun :: "library \<Rightarrow> Tx \<Rightarrow> ID \<Rightarrow> int \<Rightarrow> instant \<Rightarrow> ID \<Rightarrow> error + Run \<times> Tx" where
  "forceRun e tx taskID scheduledFor wall newID =
     (let t = time_Unix scheduledFor;
          r = \<lparr>Run.ID = newID, TaskID = taskID, Status = [],
               ScheduledFor = time_Format e t, StartedAt = [], FinishedAt = [],
               RequestedAt = time_Format e wall, Log = []\<rparr>;
          bucket = taskRunBucket tx
      in case manualRuns tx taskID of Inl err \<Rightarrow> Inl err
      | Inr runs \<Rightarrow>
     (if list_ex (\<lambda>run. Run.ScheduledFor run = Run.ScheduledFor r) runs
      then Inl ErrTaskRunAlreadyQueued
      else (case taskManualRunKey taskID of Inl err \<Rightarrow> Inl err
            | Inr key \<Rightarrow>
                Inr (r, tx\<lparr>taskRunBucket := Put bucket key (JRuns (runs @ [r]))\<rparr>))))"

definition ForceRun :: "library \<Rightarrow> ID \<Rightarrow> int \<Rightarrow> instant \<Rightarrow> ID \<Rightarrow> Tx \<Rightarrow> (error + Run) \<times> Tx" where
  "ForceRun e taskID scheduledFor wall newID =
     Update (\<lambda>tx. forceRun e tx taskID scheduledFor wall newID)"

subsection \<open>Creating the next run\<close>

definition nextDueRun :: "library \<Rightarrow> Tx \<Rightarrow> ID \<Rightarrow> error + int" where
  "nextDueRun e tx taskID =
     (case findTaskByID e tx taskID of Inl err \<Rightarrow> Inl err
      | Inr task \<Rightarrow>
     (case findLatestCompletedTime e tx taskID of Inl err \<Rightarrow> Inl err
      | Inr latestCompleted0 \<Rightarrow>
     (case (if IsZero latestCompleted0
            then (case time_Parse e (CreatedAt task) of None \<Rightarrow> Inl ErrTaskTimeParse
                  | Some t \<Rightarrow> Inr t)
            else Inr latestCompleted0) of Inl err \<Rightarrow> Inl err
      | Inr latestCompleted \<Rightarrow>
     (case cron_Parse e (EffectiveCron task) of None \<Rightarrow> Inl ErrTaskTimeParse
      | Some sch \<Rightarrow> Inr (Unix (sch latestCompleted))))))"

definition createNextRun :: "library \<Rightarrow> Tx \<Rightarrow> ID \<Rightarrow> int \<Rightarrow> ID \<Rightarrow> error + RunCreation \<times> Tx" where
  "createNextRun e tx taskID now newID =
     (case findTaskByID e tx taskID of Inl err \<Rightarrow> Inl err
      | Inr task \<Rightarrow>
     (case manualRuns tx taskID of Inl err \<Rightarrow> Inl err
      | Inr mRuns0 \<Rightarrow>
     (case mRuns0 of
        mRun # mRuns \<Rightarrow>
          (let b = taskRunBucket tx
           in case taskManualRunKey taskID of Inl err \<Rightarrow> Inl err
           | Inr runsKey \<Rightarrow>
          (let b = Put b runsKey (JRuns mRuns)
           in case taskRunKey taskID (Run.ID mRun) of Inl err \<Rightarrow> Inl err
           | Inr runKey \<Rightarrow>
          (let tx = tx\<lparr>taskRunBucket := Put b runKey (JRun mRun)\<rparr>
           in case ScheduledForTime e mRun of Inl err \<Rightarrow> Inl err
           | Inr schedFor \<Rightarrow>
          (case RequestedAtTime e mRun of Inl err \<Rightarrow> Inl err
           | Inr reqAt \<Rightarrow>
          (case nextDueRun e tx taskID of Inl err \<Rightarrow> Inl err
           | Inr nextDue \<Rightarrow>
               Inr (\<lparr>Created = \<lparr>QueuedRun.TaskID = taskID, RunID = Run.ID mRun,
                                 Now = Unix schedFor,
                                 RequestedAt = (if \<not> IsZero reqAt then Unix reqAt else 0)\<rparr>,
                     NextDue = nextDue, HasQueue = (0 < length mRuns)\<rparr>, tx))))))
      | [] \<Rightarrow>
     (case time_Parse e (CreatedAt task) of None \<Rightarrow> Inl ErrTaskTimeParse
      | Some createdAt \<Rightarrow>
     (case findLatestCompleted tx taskID of Inl err \<Rightarrow> Inl err
      | Inr lRun \<Rightarrow>
     (case (case lRun of None \<Rightarrow> Inr createdAt
            | Some run \<Rightarrow>
                (case ScheduledForTime e run of Inl err \<Rightarrow> Inl err
                 | Inr runTime \<Rightarrow>
                     Inr (if After runTime createdAt then runTime else createdAt))) of
        Inl err \<Rightarrow> Inl err
      | Inr latestCompleted \<Rightarrow>
     (case cron_Parse e (EffectiveCron task) of None \<Rightarrow> Inl ErrTaskTimeParse
      | Some sch \<Rightarrow>
     (let nowTime = time_Unix now;
          nextScheduled = sch latestCompleted;
          nextScheduledUnix = Unix nextScheduled
      in case Duration_Parse e (Offset task) of None \<Rightarrow> Inl ErrTaskTimeParse
      | Some offset \<Rightarrow>
     (case offset nextScheduled of None \<Rightarrow> Inl ErrTaskTimeParse
      | Some dueAt \<Rightarrow>
     (if After dueAt nowTime then Inl (RunNotYetDueError (Unix dueAt))
      else
     (let id = newID;
          run = \<lparr>Run.ID = id, TaskID = Task.ID task, Status = String RunScheduled,
                 ScheduledFor = time_Format e nextScheduled, StartedAt = [],
                 FinishedAt = [], RequestedAt = [], Log = []\<rparr>;
          b = taskRunBucket tx
      in case taskRunKey taskID (Run.ID run) of Inl err \<Rightarrow> Inl err
      | Inr runKey \<Rightarrow>
     (let tx = tx\<lparr>taskRunBucket := Put b runKey (JRun run)\<rparr>
      in case offset (sch nextScheduled) of None \<Rightarrow> Inl ErrTaskTimeParse
      | Some nextDue \<Rightarrow>
          Inr (\<lparr>Created = \<lparr>QueuedRun.TaskID = taskID, RunID = id,
                            Now = nextScheduledUnix, RequestedAt = 0\<rparr>,
                NextDue = Unix nextDue, HasQueue = False\<rparr>, tx)))))))))))))"

definition CreateNextRun :: "library \<Rightarrow> ID \<Rightarrow> int \<Rightarrow> ID \<Rightarrow> Tx \<Rightarrow> (error + RunCreation) \<times> Tx" where
  "CreateNextRun e taskID now newID = Update (\<lambda>tx. createNextRun e tx taskID now newID)"

subsection \<open>The life of a run\<close>

definition finishRun :: "library \<Rightarrow> Tx \<Rightarrow> ID \<Rightarrow> ID \<Rightarrow> error + Run \<times> Tx" where
  "finishRun e tx taskID runID =
     (case findRunByID tx taskID runID of Inl err \<Rightarrow> Inl err
      | Inr r \<Rightarrow>
     (case ScheduledForTime e r of Inl err \<Rightarrow> Inl err
      | Inr rTime \<Rightarrow>
     (case findLatestCompleted tx taskID of Inl err \<Rightarrow> Inl err
      | Inr latestRun \<Rightarrow>
     (case (case latestRun of None \<Rightarrow> Inr zero_time
            | Some l \<Rightarrow> ScheduledForTime e l) of Inl err \<Rightarrow> Inl err
      | Inr lTime \<Rightarrow>
     (let bucket = taskRunBucket tx
      in case (if After rTime lTime
               then (case taskLatestCompletedKey taskID of Inl err \<Rightarrow> Inl err
                     | Inr lKey \<Rightarrow> Inr (Put bucket lKey (JRun r)))
               else Inr bucket) of Inl err \<Rightarrow> Inl err
      | Inr bucket \<Rightarrow>
     (case taskRunKey taskID runID of Inl err \<Rightarrow> Inl err
      | Inr key \<Rightarrow> Inr (r, tx\<lparr>taskRunBucket := Delete bucket key\<rparr>)))))))"

definition FinishRun :: "library \<Rightarrow> ID \<Rightarrow> ID \<Rightarrow> Tx \<Rightarrow> (error + Run) \<times> Tx" where
  "FinishRun e taskID runID = Update (\<lambda>tx. finishRun e tx taskID runID)"

definition updateRunState ::
  "library \<Rightarrow> Tx \<Rightarrow> ID \<Rightarrow> ID \<Rightarrow> instant \<Rightarrow> RunStatus \<Rightarrow> error + unit \<times> Tx" where
  "updateRunState e tx taskID runID when state =
     (case findRunByID tx taskID runID of Inl err \<Rightarrow> Inl err
      | Inr run \<Rightarrow>
     (let run = run\<lparr>Run.Status := String state\<rparr>;
          run = (case state of
                   RunStarted \<Rightarrow> run\<lparr>Run.StartedAt := time_FormatNano e when\<rparr>
                 | RunSuccess \<Rightarrow> run\<lparr>Run.FinishedAt := time_FormatNano e when\<rparr>
                 | RunFail \<Rightarrow> run\<lparr>Run.FinishedAt := time_FormatNano e when\<rparr>
                 | RunCanceled \<Rightarrow> run\<lparr>Run.FinishedAt := time_FormatNano e when\<rparr>
                 | RunScheduled \<Rightarrow> run);
          b = taskRunBucket tx
      in case taskRunKey taskID (Run.ID run) of Inl err \<Rightarrow> Inl err
      | Inr runKey \<Rightarrow> Inr ((), tx\<lparr>taskRunBucket := Put b runKey (JRun run)\<rparr>)))"

definition UpdateRunState ::
  "library \<Rightarrow> ID \<Rightarrow> ID \<Rightarrow> instant \<Rightarrow> RunStatus \<Rightarrow> Tx \<Rightarrow> (error + unit) \<times> Tx" where
  "UpdateRunState e taskID runID when state =
     Update (\<lambda>tx. updateRunState e tx taskID runID when state)"

definition addRunLog ::
  "library \<Rightarrow> Tx \<Rightarrow> ID \<Rightarrow> ID \<Rightarrow> instant \<Rightarrow> string \<Rightarrow> error + unit \<times> Tx" where
  "addRunLog e tx taskID runID when log =
     (case findRunByID tx taskID runID of Inl err \<Rightarrow> Inl err
      | Inr run \<Rightarrow>
     (let l = \<lparr>Time = time_FormatNano e when, Message = log\<rparr>;
          run = run\<lparr>Run.Log := Run.Log run @ [l]\<rparr>;
          b = taskRunBucket tx
      in case taskRunKey taskID (Run.ID run) of Inl err \<Rightarrow> Inl err
      | Inr runKey \<Rightarrow> Inr ((), tx\<lparr>taskRunBucket := Put b runKey (JRun run)\<rparr>)))"

definition AddRunLog ::
  "library \<Rightarrow> ID \<Rightarrow> ID \<Rightarrow> instant \<Rightarrow> string \<Rightarrow> Tx \<Rightarrow> (error + unit) \<times> Tx" where
  "AddRunLog e taskID runID when log = Update (\<lambda>tx. addRunLog e tx taskID runID when log)"

subsection \<open>A small instance\<close>

text \<open>
  A library and a few stores to run the operations on. The library knows the RFC3339
  text of five instants of the first of January 2019 (all other text is unparsable and
  all other instants print as the empty string), the schedule \<open>@every 30s\<close>, which like
  the cron library's constant-delay schedule steps to the next whole second plus the
  delay, and the offset \<open>0s\<close>. The task of the stores has identifier 1, belongs to
  organization 2, runs every 30 seconds and was created at midnight.
\<close>

definition rfc3339_table :: "(string \<times> instant) list" where
  "rfc3339_table =
     [(''2019-01-01T00:00:00Z'', 1546300800000000000),
      (''2019-01-01T00:00:10Z'', 1546300810000000000),
      (''2019-01-01T00:00:30Z'', 1546300830000000000),
      (''2019-01-01T00:01:00Z'', 1546300860000000000),
      (''2019-01-01T00:01:30Z'', 1546300890000000000)]"

definition demo_library :: library where
  "demo_library =
     \<lparr>time_Parse = map_of rfc3339_table,
      time_Format = (\<lambda>t. case map_of (map (\<lambda>(s, t). (t, s)) rfc3339_table) t of
                            None \<Rightarrow> [] | Some s \<Rightarrow> s),
      time_FormatNano = (\<lambda>t. case map_of (map (\<lambda>(s, t). (t, s)) rfc3339_table) t of
                            None \<Rightarrow> [] | Some s \<Rightarrow> s),
      cron_Parse = (\<lambda>s. if s = ''@every 30s''
                          then Some (\<lambda>t. t + 30000000000 - t mod 1000000000) else None),
      Duration_Parse = (\<lambda>s. if s = ''0s'' then Some (\<lambda>t. Some t) else None),
      TaskMaxPageSize = 500\<rparr>"

definition demo_task :: Task where
  "demo_task =
     \<lparr>Task.ID = 1, OrganizationID = 2, Name = ''t'', Status = ''active'', Every = ''30s'',
      Cron = [], Offset = ''0s'', LatestCompleted = [],
      CreatedAt = ''2019-01-01T00:00:00Z'', UpdatedAt = []\<rparr>"

definition demo_run :: Run where
  "demo_run =
     \<lparr>Run.ID = 3, TaskID = 1, Status = ''scheduled'', ScheduledFor = ''2019-01-01T00:00:30Z'',
      StartedAt = [], FinishedAt = [], RequestedAt = [], Log = []\<rparr>"

definition demo_forced :: Run where
  "demo_forced =
     \<lparr>Run.ID = 5, TaskID = 1, Status = [], ScheduledFor = ''2019-01-01T00:01:00Z'',
      StartedAt = [], FinishedAt = [], RequestedAt = ''2019-01-01T00:00:10Z'', Log = []\<rparr>"

text \<open>The task alone; the task with one run in progress; the same with one forced run queued.\<close>

definition demo_tx :: Tx where
  "demo_tx =
     \<lparr>taskBucket = [(''0000000000000001'', JTask demo_task)],
      taskRunBucket = [],
      taskIndexBucket = [(''0000000000000002/0000000000000001'', Bytes ''0000000000000001'')]\<rparr>"

definition demo_tx_running :: Tx where
  "demo_tx_running =
     demo_tx\<lparr>taskRunBucket := [(''0000000000000001/0000000000000003'', JRun demo_run)]\<rparr>"

definition demo_tx_queued :: Tx where
  "demo_tx_queued =
     demo_tx\<lparr>taskRunBucket :=
       [(''0000000000000001/0000000000000003'', JRun demo_run),
        (''0000000000000001/manualRuns'', JRuns [demo_forced])]\<rparr>"



text \<open>The task with one run in progress and a latest-completed pointer at a later tick.\<close>

definition demo_tx_late :: Tx where
  "demo_tx_late =
     demo_tx\<lparr>taskRunBucket :=
       [(''0000000000000001/0000000000000003'', JRun demo_run),
        (''0000000000000001/latestCompleted'', JRun demo_forced)]\<rparr>"

section \<open>Properties\<close>

subsection \<open>The store and the keys\<close>

lemma length_Encode: "Encode i = Some k \<Longrightarrow> length k = 16"
  by (auto simp: Encode_def split: if_splits)

lemma Get_Put: "Get (Put b k v) k' = (if k' = k then Inr v else Get b k')"
  by (induction b k v rule: Put.induct) (auto simp: Get_def)

lemma Get_Delete: "Get (Delete b k) k' = (if k' = k then Inl ErrKeyNotFound else Get b k')"
  by (induction b) (auto simp: Get_def Delete_def)

lemma run_key_neq_latest:
  "length kr = 16 \<Longrightarrow> kt @ ''/'' @ kr \<noteq> kt @ ''/latestCompleted''"
  by (auto dest: arg_cong [where f = length])

lemma run_key_neq_manual:
  "length kr = 16 \<Longrightarrow> kt @ ''/'' @ kr \<noteq> kt @ ''/manualRuns''"
  by (auto dest: arg_cong [where f = length])

lemma findRunByID_stored:
  assumes "Encode taskID = Some kt" and "Encode runID = Some kr"
    and "Get (taskRunBucket tx) (kt @ ''/'' @ kr) = Inr (JRun r)"
  shows "findRunByID tx taskID runID = Inr r"
  using assms by (simp add: findRunByID_def taskRunKey_def unmarshalRun_def)

lemma findLatestCompleted_Get:
  assumes "Encode taskID = Some kt"
  shows "findLatestCompleted tx taskID =
     (case Get (taskRunBucket tx) (kt @ ''/latestCompleted'') of
        Inl err \<Rightarrow> (if err = ErrKeyNotFound then Inr None else Inl (ErrUnexpectedTaskBucketErr err))
      | Inr bytes \<Rightarrow> (case unmarshalRun bytes of None \<Rightarrow> Inl ErrInternalTaskServiceError
                       | Some run \<Rightarrow> Inr (Some run)))"
  using assms by (simp add: findLatestCompleted_def taskLatestCompletedKey_def)

lemma findLatestCompleted_cases:
  assumes "Encode taskID = Some kt" and "findLatestCompleted tx taskID = Inr latest"
  shows "Get (taskRunBucket tx) (kt @ ''/latestCompleted'')
           = (case latest of None \<Rightarrow> Inl ErrKeyNotFound | Some l \<Rightarrow> Inr (JRun l))"
  using assms
  by (auto simp: findLatestCompleted_Get unmarshalRun_def
      split: sum.splits if_splits option.splits stored.splits kv_error.splits)

lemma EffectiveCron_LatestCompleted [simp]:
  "EffectiveCron (task\<lparr>LatestCompleted := x\<rparr>) = EffectiveCron task"
  by (simp add: EffectiveCron_def)


lemma manualRuns_Put:
  assumes "Encode taskID = Some kt"
  shows "manualRuns (tx\<lparr>taskRunBucket := Put b (kt @ ''/manualRuns'') (JRuns runs)\<rparr>) taskID
           = Inr runs"
  using assms by (simp add: manualRuns_def taskManualRunKey_def unmarshalRuns_def Get_Put)

lemma manualRuns_taskBucket [simp]:
  "manualRuns (tx\<lparr>taskBucket := b\<rparr>) taskID = manualRuns tx taskID"
  by (simp add: manualRuns_def split: sum.splits)

lemma findLatestCompletedTime_eq:
  assumes "findLatestCompleted tx taskID = Inr latest"
    and "case latest of None \<Rightarrow> lc = zero_time
         | Some l \<Rightarrow> time_Parse e (Run.ScheduledFor l) = Some lc"
  shows "findLatestCompletedTime e tx taskID = Inr lc"
  using assms by (cases latest) (simp_all add: findLatestCompletedTime_def ScheduledForTime_def)

lemma findTaskByID_stored:
  assumes "Encode taskID = Some kt"
    and "Get (taskBucket tx) kt = Inr (JTask task)"
    and "findLatestCompletedTime e tx (Task.ID task) = Inr lc"
  shows "findTaskByID e tx taskID
           = Inr (task\<lparr>LatestCompleted :=
                    (if lc \<noteq> zero_time then time_Format e lc else CreatedAt task)\<rparr>)"
  using assms by (simp add: findTaskByID_def taskKey_def unmarshalTask_def IsZero_def)


lemma forceRun_eq:
  assumes "Encode taskID = Some kt" and "manualRuns tx taskID = Inr runs"
  shows "forceRun e tx taskID scheduledFor wall newID =
     (if time_Format e (time_Unix scheduledFor) \<in> Run.ScheduledFor ` set runs
      then Inl ErrTaskRunAlreadyQueued
      else Inr (\<lparr>Run.ID = newID, TaskID = taskID, Status = [],
                  ScheduledFor = time_Format e (time_Unix scheduledFor), StartedAt = [],
                  FinishedAt = [], RequestedAt = time_Format e wall, Log = []\<rparr>,
                tx\<lparr>taskRunBucket := Put (taskRunBucket tx) (kt @ ''/manualRuns'')
                  (JRuns (runs @ [\<lparr>Run.ID = newID, TaskID = taskID, Status = [],
                     ScheduledFor = time_Format e (time_Unix scheduledFor), StartedAt = [],
                     FinishedAt = [], RequestedAt = time_Format e wall, Log = []\<rparr>]))\<rparr>))"
proof -
  have "list_ex (\<lambda>run. Run.ScheduledFor run = x) runs \<longleftrightarrow> x \<in> Run.ScheduledFor ` set runs" for x
    by (auto simp: list_ex_iff)
  then show ?thesis
    using assms by (simp add: forceRun_def Let_def taskManualRunKey_def)
qed

lemma forceRun_taskBucket:
  "forceRun e (tx\<lparr>taskBucket := b\<rparr>) taskID t wall newID
     = map_sum (\<lambda>err. err) (\<lambda>(r, s). (r, s\<lparr>taskBucket := b\<rparr>)) (forceRun e tx taskID t wall newID)"
  by (simp add: forceRun_def Let_def split: sum.splits)

lemma Unix_time_Unix [simp]: "Unix (time_Unix sec) = sec"
  by (simp add: Unix_def time_Unix_def)

lemma time_Unix_less [simp]: "time_Unix a < time_Unix b \<longleftrightarrow> a < b"
  by (simp add: time_Unix_def)

lemma manualRuns_Get:
  assumes "Encode taskID = Some kt"
  shows "manualRuns tx taskID =
     (case Get (taskRunBucket tx) (kt @ ''/manualRuns'') of
        Inl err \<Rightarrow> (if err = ErrKeyNotFound then Inr [] else Inl (ErrUnexpectedTaskBucketErr err))
      | Inr val \<Rightarrow> (case unmarshalRuns val of None \<Rightarrow> Inl ErrInternalTaskServiceError
                     | Some runs \<Rightarrow> Inr runs))"
  using assms by (simp add: manualRuns_def taskManualRunKey_def)

lemma createNextRun_scheduled:
  assumes kt: "Encode taskID = Some kt"
    and task: "Get (taskBucket tx) kt = Inr (JTask task)" and tid: "Task.ID task = taskID"
    and empty: "manualRuns tx taskID = Inr []"
    and latest: "findLatestCompleted tx taskID = Inr latest"
    and lc: "case latest of None \<Rightarrow> lc = zero_time
             | Some l \<Rightarrow> time_Parse e (Run.ScheduledFor l) = Some lc"
    and createdAt: "time_Parse e (CreatedAt task) = Some createdAt"
    and sch: "cron_Parse e (EffectiveCron task) = Some sch"
    and offset: "Duration_Parse e (Offset task) = Some offset"
    and anchor: "anchor = (case latest of None \<Rightarrow> createdAt | Some l \<Rightarrow> max createdAt lc)"
    and dueAt: "offset (sch anchor) = Some dueAt"
  shows "createNextRun e tx taskID now newID =
     (if time_Unix now < dueAt then Inl (RunNotYetDueError (Unix dueAt))
      else case Encode newID of None \<Rightarrow> Inl ErrInvalidTaskID
      | Some kn \<Rightarrow>
          (case offset (sch (sch anchor)) of None \<Rightarrow> Inl ErrTaskTimeParse
           | Some nextDue \<Rightarrow>
               Inr (\<lparr>Created = \<lparr>QueuedRun.TaskID = taskID, RunID = newID,
                                 Now = Unix (sch anchor), RequestedAt = 0\<rparr>,
                     NextDue = Unix nextDue, HasQueue = False\<rparr>,
                    tx\<lparr>taskRunBucket := Put (taskRunBucket tx) (kt @ ''/'' @ kn)
                      (JRun \<lparr>Run.ID = newID, TaskID = taskID, Status = ''scheduled'',
                             ScheduledFor = time_Format e (sch anchor), StartedAt = [],
                             FinishedAt = [], RequestedAt = [], Log = []\<rparr>)\<rparr>)))"
proof -
  let ?task = "task\<lparr>LatestCompleted :=
                    (if lc \<noteq> zero_time then time_Format e lc else CreatedAt task)\<rparr>"
  have lct: "findLatestCompletedTime e tx taskID = Inr lc"
    by (rule findLatestCompletedTime_eq [OF latest lc])
  have ft: "findTaskByID e tx taskID = Inr ?task"
    using findTaskByID_stored [OF kt task] lct tid by simp
  have an: "(case latest of None \<Rightarrow> Inr createdAt
            | Some run \<Rightarrow>
                (case ScheduledForTime e run of Inl err \<Rightarrow> Inl err
                 | Inr runTime \<Rightarrow>
                     Inr (if After runTime createdAt then runTime else createdAt))) = Inr anchor"
    using lc anchor by (cases latest) (auto simp: ScheduledForTime_def After_def max_def)
  show ?thesis
    using ft empty createdAt latest an sch offset dueAt kt tid
    by (simp add: createNextRun_def Let_def After_def taskRunKey_def
        split: option.splits)
qed

lemma finishRun_eq:
  assumes kt: "Encode taskID = Some kt" and kr: "Encode runID = Some kr"
    and run: "Get (taskRunBucket tx) (kt @ ''/'' @ kr) = Inr (JRun r)"
    and rTime: "time_Parse e (Run.ScheduledFor r) = Some rTime"
    and latest: "findLatestCompleted tx taskID = Inr latest"
    and lTime: "case latest of None \<Rightarrow> lTime = zero_time
                | Some l \<Rightarrow> time_Parse e (Run.ScheduledFor l) = Some lTime"
  shows "finishRun e tx taskID runID
     = Inr (r, tx\<lparr>taskRunBucket :=
          Delete (if lTime < rTime
                  then Put (taskRunBucket tx) (kt @ ''/latestCompleted'') (JRun r)
                  else taskRunBucket tx) (kt @ ''/'' @ kr)\<rparr>)"
proof -
  have lt: "(case latest of None \<Rightarrow> Inr zero_time | Some l \<Rightarrow> ScheduledForTime e l) = Inr lTime"
    using lTime by (cases latest) (simp_all add: ScheduledForTime_def)
  show ?thesis
    using kt kr rTime latest lt findRunByID_stored [OF kt kr run]
    by (simp add: finishRun_def ScheduledForTime_def After_def taskLatestCompletedKey_def
        taskRunKey_def Let_def)
qed

subsection \<open>Creating scheduled runs\<close>

text \<open>
  C1. The claim: in any sequence of \<open>CreateNextRun\<close> calls for one task, with nothing
  else in between, no two scheduled runs get the same \<open>scheduledFor\<close>. The code anchors
  the next tick on the task's creation time and the latest completed run only, so a
  second call made before the first run is finished computes the same tick again: on the
  task created at midnight, two calls at 00:00:30 both succeed, and the ledger then lists
  two runs in progress, with identifiers 16 and 17, both scheduled for 00:00:30.
\<close>

theorem createNextRun_repeats_tick:
  "CreateNextRun demo_library 1 1546300830 16 demo_tx
     = (Inr \<lparr>Created = \<lparr>QueuedRun.TaskID = 1, RunID = 16, Now = 1546300830, RequestedAt = 0\<rparr>,
             NextDue = 1546300860, HasQueue = False\<rparr>,
        demo_tx\<lparr>taskRunBucket :=
          [(''0000000000000001/0000000000000010'', JRun (demo_run\<lparr>Run.ID := 16\<rparr>))]\<rparr>)
   \<and> CreateNextRun demo_library 1 1546300830 17
        (demo_tx\<lparr>taskRunBucket :=
          [(''0000000000000001/0000000000000010'', JRun (demo_run\<lparr>Run.ID := 16\<rparr>))]\<rparr>)
     = (Inr \<lparr>Created = \<lparr>QueuedRun.TaskID = 1, RunID = 17, Now = 1546300830, RequestedAt = 0\<rparr>,
             NextDue = 1546300860, HasQueue = False\<rparr>,
        demo_tx\<lparr>taskRunBucket :=
          [(''0000000000000001/0000000000000010'', JRun (demo_run\<lparr>Run.ID := 16\<rparr>)),
           (''0000000000000001/0000000000000011'', JRun (demo_run\<lparr>Run.ID := 17\<rparr>))]\<rparr>)
   \<and> currentlyRunning
        (demo_tx\<lparr>taskRunBucket :=
          [(''0000000000000001/0000000000000010'', JRun (demo_run\<lparr>Run.ID := 16\<rparr>)),
           (''0000000000000001/0000000000000011'', JRun (demo_run\<lparr>Run.ID := 17\<rparr>))]\<rparr>) 1
     = Inr [demo_run\<lparr>Run.ID := 16\<rparr>, demo_run\<lparr>Run.ID := 17\<rparr>]
   \<and> Run.ScheduledFor (demo_run\<lparr>Run.ID := 16\<rparr>) = Run.ScheduledFor (demo_run\<lparr>Run.ID := 17\<rparr>)"
  by code_simp

text \<open>
  C4. The interval scenario, and the not-yet-due answer. A task is stored, created at
  the Unix time \<open>t0\<close>, with a schedule whose tick after \<open>t0\<close> is \<open>t0 + 30\<close> and whose tick
  after that is \<open>t0 + 60\<close> (every 30 seconds), a zero offset, an empty manual queue and no
  latest-completed run; the generator hands out valid identifiers. Then
  \<open>CreateNextRun\<close> at \<open>t0 + 30\<close> stores one run, scheduled for \<open>t0 + 30\<close> with status
  \<open>scheduled\<close>, and reports \<open>t0 + 60\<close> as next due; \<open>FinishRun\<close> of that run removes it
  and makes it the latest-completed run; \<open>CreateNextRun\<close> at \<open>t0 + 65\<close> then stores
  exactly one more run, scheduled for \<open>t0 + 60\<close>. And in general: whenever the manual
  queue is empty and the due time, the schedule's tick after the later of the creation
  time and the latest completed run plus the offset, is after \<open>now\<close>, \<open>CreateNextRun\<close>
  fails with \<open>RunNotYetDueError\<close> carrying the due time in Unix seconds, and the store
  is as before.
\<close>

theorem createNextRun_interval_scenario:
  assumes kt: "Encode taskID = Some kt" and k1: "Encode id1 = Some k1"
    and k2: "Encode id2 = Some k2"
    and task: "Get (taskBucket tx) kt = Inr (JTask task)" and tid: "Task.ID task = taskID"
    and created: "time_Parse e (CreatedAt task) = Some (time_Unix t0)"
    and empty: "manualRuns tx taskID = Inr []"
    and fresh: "findLatestCompleted tx taskID = Inr None"
    and sch: "cron_Parse e (EffectiveCron task) = Some sch"
    and tick1: "sch (time_Unix t0) = time_Unix (t0 + 30)"
    and tick2: "sch (time_Unix (t0 + 30)) = time_Unix (t0 + 60)"
    and offset: "Duration_Parse e (Offset task) = Some offset"
    and zero_offset: "\<forall>t. offset t = Some t"
    and parse1: "time_Parse e (time_Format e (time_Unix (t0 + 30))) = Some (time_Unix (t0 + 30))"
    and year1: "zero_time < time_Unix (t0 + 30)"
    and run1: "run1 = \<lparr>Run.ID = id1, TaskID = taskID, Status = ''scheduled'',
                        ScheduledFor = time_Format e (time_Unix (t0 + 30)), StartedAt = [],
                        FinishedAt = [], RequestedAt = [], Log = []\<rparr>"
    and run2: "run2 = \<lparr>Run.ID = id2, TaskID = taskID, Status = ''scheduled'',
                        ScheduledFor = time_Format e (time_Unix (t0 + 60)), StartedAt = [],
                        FinishedAt = [], RequestedAt = [], Log = []\<rparr>"
    and s1: "s1 = tx\<lparr>taskRunBucket := Put (taskRunBucket tx) (kt @ ''/'' @ k1) (JRun run1)\<rparr>"
    and s2: "s2 = s1\<lparr>taskRunBucket :=
                    Delete (Put (taskRunBucket s1) (kt @ ''/latestCompleted'') (JRun run1))
                      (kt @ ''/'' @ k1)\<rparr>"
    and s3: "s3 = s2\<lparr>taskRunBucket := Put (taskRunBucket s2) (kt @ ''/'' @ k2) (JRun run2)\<rparr>"
  shows "CreateNextRun e taskID (t0 + 30) id1 tx
      = (Inr \<lparr>Created = \<lparr>QueuedRun.TaskID = taskID, RunID = id1, Now = t0 + 30,
                          RequestedAt = 0\<rparr>,
              NextDue = t0 + 60, HasQueue = False\<rparr>, s1)
    \<and> FinishRun e taskID id1 s1 = (Inr run1, s2)
    \<and> findLatestCompleted s2 taskID = Inr (Some run1)
    \<and> CreateNextRun e taskID (t0 + 65) id2 s2
      = (Inr \<lparr>Created = \<lparr>QueuedRun.TaskID = taskID, RunID = id2, Now = t0 + 60,
                          RequestedAt = 0\<rparr>,
              NextDue = Unix (sch (time_Unix (t0 + 60))), HasQueue = False\<rparr>, s3)
    \<and> (\<forall>tx' taskID' kt' task' latest lc createdAt sch' offset' dueAt now newID.
          Encode taskID' = Some kt' \<and> Get (taskBucket tx') kt' = Inr (JTask task')
        \<and> Task.ID task' = taskID' \<and> manualRuns tx' taskID' = Inr []
        \<and> findLatestCompleted tx' taskID' = Inr latest
        \<and> (case latest of None \<Rightarrow> lc = zero_time
            | Some l \<Rightarrow> time_Parse e (Run.ScheduledFor l) = Some lc)
        \<and> time_Parse e (CreatedAt task') = Some createdAt
        \<and> cron_Parse e (EffectiveCron task') = Some sch'
        \<and> Duration_Parse e (Offset task') = Some offset'
        \<and> offset' (sch' (case latest of None \<Rightarrow> createdAt | Some l \<Rightarrow> max createdAt lc))
             = Some dueAt
        \<and> time_Unix now < dueAt
        \<longrightarrow> CreateNextRun e taskID' now newID tx'
              = (Inl (RunNotYetDueError (Unix dueAt)), tx'))"
proof (intro conjI allI impI)
  let ?rk = "kt @ ''/'' @ k1" and ?lk = "kt @ ''/latestCompleted''" and ?mk = "kt @ ''/manualRuns''"
  have rk_lk: "?rk \<noteq> ?lk"
    using length_Encode [OF k1] by (rule run_key_neq_latest)
  have rk_mk: "?rk \<noteq> ?mk"
    using length_Encode [OF k1] by (rule run_key_neq_manual)
  have zlc: "case None :: Run option of None \<Rightarrow> zero_time = zero_time
             | Some l \<Rightarrow> time_Parse e (Run.ScheduledFor l) = Some zero_time"
    by simp
  have a0: "time_Unix t0 = (case None :: Run option of None \<Rightarrow> time_Unix t0
                             | Some l \<Rightarrow> max (time_Unix t0) zero_time)"
    by simp
  have due1: "offset (sch (time_Unix t0)) = Some (time_Unix (t0 + 30))"
    using zero_offset tick1 by simp
  have c1: "createNextRun e tx taskID (t0 + 30) id1
      = Inr (\<lparr>Created = \<lparr>QueuedRun.TaskID = taskID, RunID = id1, Now = t0 + 30,
                          RequestedAt = 0\<rparr>,
              NextDue = t0 + 60, HasQueue = False\<rparr>, s1)"
    using createNextRun_scheduled [OF kt task tid empty fresh zlc created sch offset a0 due1,
        of "t0 + 30" id1] k1 zero_offset tick1 tick2
    by (simp add: s1 run1)
  show "CreateNextRun e taskID (t0 + 30) id1 tx
      = (Inr \<lparr>Created = \<lparr>QueuedRun.TaskID = taskID, RunID = id1, Now = t0 + 30,
                          RequestedAt = 0\<rparr>,
              NextDue = t0 + 60, HasQueue = False\<rparr>, s1)"
    by (simp add: CreateNextRun_def Update_def c1)
  have run_s1: "Get (taskRunBucket s1) ?rk = Inr (JRun run1)"
    by (simp add: s1 Get_Put)
  have fresh_s1: "findLatestCompleted s1 taskID = Inr None"
    using fresh rk_lk by (simp add: s1 findLatestCompleted_Get [OF kt] Get_Put)
  have p1: "time_Parse e (Run.ScheduledFor run1) = Some (time_Unix (t0 + 30))"
    using parse1 by (simp add: run1)
  have f: "finishRun e s1 taskID id1 = Inr (run1, s2)"
    using finishRun_eq [OF kt k1 run_s1 p1 fresh_s1 zlc] year1 by (simp add: s2)
  show "FinishRun e taskID id1 s1 = (Inr run1, s2)"
    by (simp add: FinishRun_def Update_def f)
  show latest_s2: "findLatestCompleted s2 taskID = Inr (Some run1)"
    using rk_lk by (simp add: s2 findLatestCompleted_Get [OF kt] Get_Delete Get_Put unmarshalRun_def)
  have task_s2: "Get (taskBucket s2) kt = Inr (JTask task)"
    using task by (simp add: s2 s1)
  have empty_s2: "manualRuns s2 taskID = Inr []"
    using empty rk_mk
    by (simp add: s2 s1 manualRuns_Get [OF kt] Get_Delete Get_Put)
  have lc2: "case Some run1 of None \<Rightarrow> time_Unix (t0 + 30) = zero_time
             | Some l \<Rightarrow> time_Parse e (Run.ScheduledFor l) = Some (time_Unix (t0 + 30))"
    using p1 by simp
  have a2: "time_Unix (t0 + 30) = (case Some run1 of None \<Rightarrow> time_Unix t0
                             | Some l \<Rightarrow> max (time_Unix t0) (time_Unix (t0 + 30)))"
    by (simp add: max_def time_Unix_def)
  have due2: "offset (sch (time_Unix (t0 + 30))) = Some (time_Unix (t0 + 60))"
    using zero_offset tick2 by simp
  have c2: "createNextRun e s2 taskID (t0 + 65) id2
      = Inr (\<lparr>Created = \<lparr>QueuedRun.TaskID = taskID, RunID = id2, Now = t0 + 60,
                          RequestedAt = 0\<rparr>,
              NextDue = Unix (sch (time_Unix (t0 + 60))), HasQueue = False\<rparr>, s3)"
    using createNextRun_scheduled [OF kt task_s2 tid empty_s2 latest_s2 lc2 created sch offset
        a2 due2, of "t0 + 65" id2] k2 zero_offset tick2
    by (simp add: s3 run2)
  show "CreateNextRun e taskID (t0 + 65) id2 s2
      = (Inr \<lparr>Created = \<lparr>QueuedRun.TaskID = taskID, RunID = id2, Now = t0 + 60,
                          RequestedAt = 0\<rparr>,
              NextDue = Unix (sch (time_Unix (t0 + 60))), HasQueue = False\<rparr>, s3)"
    by (simp add: CreateNextRun_def Update_def c2)
next
  fix tx' taskID' kt' task' latest lc createdAt sch' offset' dueAt now newID
  assume h: "Encode taskID' = Some kt' \<and> Get (taskBucket tx') kt' = Inr (JTask task')
        \<and> Task.ID task' = taskID' \<and> manualRuns tx' taskID' = Inr []
        \<and> findLatestCompleted tx' taskID' = Inr latest
        \<and> (case latest of None \<Rightarrow> lc = zero_time
            | Some l \<Rightarrow> time_Parse e (Run.ScheduledFor l) = Some lc)
        \<and> time_Parse e (CreatedAt task') = Some createdAt
        \<and> cron_Parse e (EffectiveCron task') = Some sch'
        \<and> Duration_Parse e (Offset task') = Some offset'
        \<and> offset' (sch' (case latest of None \<Rightarrow> createdAt | Some l \<Rightarrow> max createdAt lc))
             = Some dueAt
        \<and> time_Unix now < dueAt"
  have "createNextRun e tx' taskID' now newID = Inl (RunNotYetDueError (Unix dueAt))"
    using createNextRun_scheduled [of taskID' kt' tx' task' latest lc e createdAt sch' offset'
        "case latest of None \<Rightarrow> createdAt | Some l \<Rightarrow> max createdAt lc" dueAt now newID] h
    by simp
  then show "CreateNextRun e taskID' now newID tx'
              = (Inl (RunNotYetDueError (Unix dueAt)), tx')"
    by (simp add: CreateNextRun_def Update_def)
qed

theorem createNextRun_interval_scenario_witness:
  "CreateNextRun demo_library 1 1546300830 16 demo_tx
     = (Inr \<lparr>Created = \<lparr>QueuedRun.TaskID = 1, RunID = 16, Now = 1546300830, RequestedAt = 0\<rparr>,
             NextDue = 1546300860, HasQueue = False\<rparr>,
        demo_tx\<lparr>taskRunBucket :=
          [(''0000000000000001/0000000000000010'', JRun (demo_run\<lparr>Run.ID := 16\<rparr>))]\<rparr>)
   \<and> FinishRun demo_library 1 16
        (demo_tx\<lparr>taskRunBucket :=
          [(''0000000000000001/0000000000000010'', JRun (demo_run\<lparr>Run.ID := 16\<rparr>))]\<rparr>)
     = (Inr (demo_run\<lparr>Run.ID := 16\<rparr>),
        demo_tx\<lparr>taskRunBucket :=
          [(''0000000000000001/latestCompleted'', JRun (demo_run\<lparr>Run.ID := 16\<rparr>))]\<rparr>)
   \<and> CreateNextRun demo_library 1 1546300865 17
        (demo_tx\<lparr>taskRunBucket :=
          [(''0000000000000001/latestCompleted'', JRun (demo_run\<lparr>Run.ID := 16\<rparr>))]\<rparr>)
     = (Inr \<lparr>Created = \<lparr>QueuedRun.TaskID = 1, RunID = 17, Now = 1546300860, RequestedAt = 0\<rparr>,
             NextDue = 1546300890, HasQueue = False\<rparr>,
        demo_tx\<lparr>taskRunBucket :=
          [(''0000000000000001/0000000000000011'',
            JRun (demo_run\<lparr>Run.ID := 17, Run.ScheduledFor := ''2019-01-01T00:01:00Z''\<rparr>)),
           (''0000000000000001/latestCompleted'', JRun (demo_run\<lparr>Run.ID := 16\<rparr>))]\<rparr>)
   \<and> CreateNextRun demo_library 1 1546300829 16 demo_tx
     = (Inl (RunNotYetDueError 1546300830), demo_tx)"
proof -
  let ?sch = "\<lambda>t::instant. t + 30000000000 - t mod 1000000000"
  let ?off = "\<lambda>t::instant. Some t"
  let ?s1 = "demo_tx\<lparr>taskRunBucket :=
          [(''0000000000000001/0000000000000010'', JRun (demo_run\<lparr>Run.ID := 16\<rparr>))]\<rparr>"
  let ?s2 = "demo_tx\<lparr>taskRunBucket :=
          [(''0000000000000001/latestCompleted'', JRun (demo_run\<lparr>Run.ID := 16\<rparr>))]\<rparr>"
  let ?s3 = "demo_tx\<lparr>taskRunBucket :=
          [(''0000000000000001/0000000000000011'',
            JRun (demo_run\<lparr>Run.ID := 17, Run.ScheduledFor := ''2019-01-01T00:01:00Z''\<rparr>)),
           (''0000000000000001/latestCompleted'', JRun (demo_run\<lparr>Run.ID := 16\<rparr>))]\<rparr>"
  have kt: "Encode 1 = Some ''0000000000000001''"
    by code_simp
  have k1: "Encode 16 = Some ''0000000000000010''"
    by code_simp
  have k2: "Encode 17 = Some ''0000000000000011''"
    by code_simp
  have task: "Get (taskBucket demo_tx) ''0000000000000001'' = Inr (JTask demo_task)"
    by code_simp
  have tid: "Task.ID demo_task = 1"
    by code_simp
  have created: "time_Parse demo_library (CreatedAt demo_task) = Some (time_Unix 1546300800)"
    by code_simp
  have empty: "manualRuns demo_tx 1 = Inr []"
    by code_simp
  have fresh: "findLatestCompleted demo_tx 1 = Inr None"
    by code_simp
  have sch: "cron_Parse demo_library (EffectiveCron demo_task) = Some ?sch"
    by (simp add: demo_library_def demo_task_def EffectiveCron_def)
  have tick1: "?sch (time_Unix 1546300800) = time_Unix (1546300800 + 30)"
    by (simp add: time_Unix_def)
  have tick2: "?sch (time_Unix (1546300800 + 30)) = time_Unix (1546300800 + 60)"
    by (simp add: time_Unix_def)
  have offset: "Duration_Parse demo_library (Offset demo_task) = Some ?off"
    by (simp add: demo_library_def demo_task_def)
  have zero_offset: "\<forall>t. ?off t = Some t"
    by simp
  have parse1: "time_Parse demo_library (time_Format demo_library (time_Unix (1546300800 + 30)))
                  = Some (time_Unix (1546300800 + 30))"
    by code_simp
  have year1: "zero_time < time_Unix (1546300800 + 30)"
    by (simp add: zero_time_def time_Unix_def)
  have run1: "demo_run\<lparr>Run.ID := 16\<rparr>
      = \<lparr>Run.ID = 16, TaskID = 1, Status = ''scheduled'',
         ScheduledFor = time_Format demo_library (time_Unix (1546300800 + 30)), StartedAt = [],
         FinishedAt = [], RequestedAt = [], Log = []\<rparr>"
    by code_simp
  have run2: "demo_run\<lparr>Run.ID := 17, Run.ScheduledFor := ''2019-01-01T00:01:00Z''\<rparr>
      = \<lparr>Run.ID = 17, TaskID = 1, Status = ''scheduled'',
         ScheduledFor = time_Format demo_library (time_Unix (1546300800 + 60)), StartedAt = [],
         FinishedAt = [], RequestedAt = [], Log = []\<rparr>"
    by code_simp
  have s1: "?s1 = demo_tx\<lparr>taskRunBucket :=
      Put (taskRunBucket demo_tx) (''0000000000000001'' @ ''/'' @ ''0000000000000010'')
        (JRun (demo_run\<lparr>Run.ID := 16\<rparr>))\<rparr>"
    by code_simp
  have s2: "?s2 = ?s1\<lparr>taskRunBucket :=
      Delete (Put (taskRunBucket ?s1) (''0000000000000001'' @ ''/latestCompleted'')
                (JRun (demo_run\<lparr>Run.ID := 16\<rparr>)))
        (''0000000000000001'' @ ''/'' @ ''0000000000000010'')\<rparr>"
    by code_simp
  have s3: "?s3 = ?s2\<lparr>taskRunBucket :=
      Put (taskRunBucket ?s2) (''0000000000000001'' @ ''/'' @ ''0000000000000011'')
        (JRun (demo_run\<lparr>Run.ID := 17, Run.ScheduledFor := ''2019-01-01T00:01:00Z''\<rparr>))\<rparr>"
    by code_simp
  note T = createNextRun_interval_scenario [OF kt k1 k2 task tid created empty fresh sch tick1
      tick2 offset zero_offset parse1 year1 run1 run2 s1 s2 s3]
  have scenario: "CreateNextRun demo_library 1 1546300830 16 demo_tx
     = (Inr \<lparr>Created = \<lparr>QueuedRun.TaskID = 1, RunID = 16, Now = 1546300830, RequestedAt = 0\<rparr>,
             NextDue = 1546300860, HasQueue = False\<rparr>, ?s1)
   \<and> FinishRun demo_library 1 16 ?s1 = (Inr (demo_run\<lparr>Run.ID := 16\<rparr>), ?s2)
   \<and> CreateNextRun demo_library 1 1546300865 17 ?s2
     = (Inr \<lparr>Created = \<lparr>QueuedRun.TaskID = 1, RunID = 17, Now = 1546300860, RequestedAt = 0\<rparr>,
             NextDue = 1546300890, HasQueue = False\<rparr>, ?s3)"
    using T by (simp add: Unix_def time_Unix_def)
  have zlc: "case None :: Run option of None \<Rightarrow> zero_time = zero_time
             | Some l \<Rightarrow> time_Parse demo_library (Run.ScheduledFor l) = Some zero_time"
    by simp
  have due: "?off (?sch (case None :: Run option of None \<Rightarrow> time_Unix 1546300800
                         | Some l \<Rightarrow> max (time_Unix 1546300800) zero_time))
               = Some (time_Unix 1546300830)"
    by (simp add: time_Unix_def)
  have early: "time_Unix 1546300829 < time_Unix 1546300830"
    by (simp add: time_Unix_def)
  have "CreateNextRun demo_library 1 1546300829 16 demo_tx
     = (Inl (RunNotYetDueError (Unix (time_Unix 1546300830))), demo_tx)"
    using T kt task tid empty fresh zlc created sch offset due early by blast
  then have not_due: "CreateNextRun demo_library 1 1546300829 16 demo_tx
     = (Inl (RunNotYetDueError 1546300830), demo_tx)"
    by (simp add: Unix_def time_Unix_def)
  show ?thesis
    using scenario not_due by simp
qed



subsection \<open>Deleting a task\<close>

text \<open>
  C2. The claim: after \<open>DeleteTask\<close> succeeds no key under the task's prefix is left in
  the store, the manual-run queue included. The code deletes the index entry, the
  latest-completed key, one run key per run that \<open>findRuns\<close> returns (the queued runs
  among them, which have no key of their own) and the task; it never deletes the key
  of the queue. On the task with one run in progress and one forced run queued,
  \<open>DeleteTask\<close> succeeds and the queue is still there.
\<close>

theorem deleteTask_leaves_manual_queue:
  "fst (DeleteTask demo_library 1 demo_tx_queued) = Inr ()
   \<and> Get (taskRunBucket (snd (DeleteTask demo_library 1 demo_tx_queued)))
         ''0000000000000001/manualRuns'' = Inr (JRuns [demo_forced])
   \<and> manualRuns (snd (DeleteTask demo_library 1 demo_tx_queued)) 1 = Inr [demo_forced]
   \<and> findTaskByID demo_library (snd (DeleteTask demo_library 1 demo_tx_queued)) 1
       = Inl backend_ErrTaskNotFound"
  by code_simp

subsection \<open>Forcing a run\<close>

text \<open>
  C6. \<open>ForceRun\<close> refuses a time that is already queued. Let the task identifier be valid
  and the manual queue readable, with runs \<open>runs\<close>, and let \<open>r\<close> be the run built for
  the Unix time \<open>t\<close>: requested at the clock's reading, scheduled for \<open>t\<close>. If some
  queued run has the \<open>scheduledFor\<close> of \<open>t\<close>, \<open>ForceRun\<close> fails with the conflict error
  \<open>ErrTaskRunAlreadyQueued\<close> and the store is as before. Otherwise it returns \<open>r\<close> and
  the queue becomes \<open>runs\<close> followed by \<open>r\<close>; a second \<open>ForceRun\<close> for the same \<open>t\<close>
  then fails with the conflict error and changes nothing, and exactly one queued run
  has that \<open>scheduledFor\<close>.
\<close>

theorem forceRun_dedup:
  assumes kt: "Encode taskID = Some kt"
    and runs: "manualRuns tx taskID = Inr runs"
    and r: "r = \<lparr>Run.ID = newID, TaskID = taskID, Status = [],
                  ScheduledFor = time_Format e (time_Unix t), StartedAt = [],
                  FinishedAt = [], RequestedAt = time_Format e wall, Log = []\<rparr>"
  shows "(time_Format e (time_Unix t) \<in> Run.ScheduledFor ` set runs \<longrightarrow>
            ForceRun e taskID t wall newID tx = (Inl ErrTaskRunAlreadyQueued, tx)
          \<and> Code ErrTaskRunAlreadyQueued = Some EConflict)
       \<and> (time_Format e (time_Unix t) \<notin> Run.ScheduledFor ` set runs \<longrightarrow>
            ForceRun e taskID t wall newID tx
              = (Inr r, tx\<lparr>taskRunBucket :=
                   Put (taskRunBucket tx) (kt @ ''/manualRuns'') (JRuns (runs @ [r]))\<rparr>)
          \<and> manualRuns (snd (ForceRun e taskID t wall newID tx)) taskID = Inr (runs @ [r])
          \<and> ForceRun e taskID t wall' newID' (snd (ForceRun e taskID t wall newID tx))
              = (Inl ErrTaskRunAlreadyQueued, snd (ForceRun e taskID t wall newID tx))
          \<and> length (filter (\<lambda>run. Run.ScheduledFor run = time_Format e (time_Unix t))
                       (runs @ [r])) = 1)"
proof (intro conjI impI)
  assume dup: "time_Format e (time_Unix t) \<in> Run.ScheduledFor ` set runs"
  show "ForceRun e taskID t wall newID tx = (Inl ErrTaskRunAlreadyQueued, tx)"
    using dup by (simp add: ForceRun_def Update_def forceRun_eq [OF kt runs])
  show "Code ErrTaskRunAlreadyQueued = Some EConflict"
    by simp
next
  assume new: "time_Format e (time_Unix t) \<notin> Run.ScheduledFor ` set runs"
  let ?tx' = "tx\<lparr>taskRunBucket :=
                   Put (taskRunBucket tx) (kt @ ''/manualRuns'') (JRuns (runs @ [r]))\<rparr>"
  show F: "ForceRun e taskID t wall newID tx = (Inr r, ?tx')"
    using new by (simp add: ForceRun_def Update_def forceRun_eq [OF kt runs] r)
  have m': "manualRuns ?tx' taskID = Inr (runs @ [r])"
    by (rule manualRuns_Put [OF kt])
  show "manualRuns (snd (ForceRun e taskID t wall newID tx)) taskID = Inr (runs @ [r])"
    by (simp add: F m')
  have "time_Format e (time_Unix t) \<in> Run.ScheduledFor ` set (runs @ [r])"
    by (simp add: r)
  then have "ForceRun e taskID t wall' newID' ?tx' = (Inl ErrTaskRunAlreadyQueued, ?tx')"
    by (simp add: ForceRun_def Update_def forceRun_eq [OF kt m'])
  then show "ForceRun e taskID t wall' newID' (snd (ForceRun e taskID t wall newID tx))
              = (Inl ErrTaskRunAlreadyQueued, snd (ForceRun e taskID t wall newID tx))"
    by (simp add: F)
  have "filter (\<lambda>run. Run.ScheduledFor run = time_Format e (time_Unix t)) runs = []"
    using new by (auto simp: filter_empty_conv image_iff)
  then show "length (filter (\<lambda>run. Run.ScheduledFor run = time_Format e (time_Unix t))
                       (runs @ [r])) = 1"
    by (simp add: r)
qed

theorem forceRun_dedup_witness:
  "ForceRun demo_library 1 1546300860 1546300810000000000 5 demo_tx
     = (Inr demo_forced,
        demo_tx\<lparr>taskRunBucket := [(''0000000000000001/manualRuns'', JRuns [demo_forced])]\<rparr>)
   \<and> ForceRun demo_library 1 1546300860 1546300830000000000 6
        (snd (ForceRun demo_library 1 1546300860 1546300810000000000 5 demo_tx))
     = (Inl ErrTaskRunAlreadyQueued,
        snd (ForceRun demo_library 1 1546300860 1546300810000000000 5 demo_tx))
   \<and> ForceRun demo_library 1 1546300860 1546300830000000000 6 demo_tx_queued
     = (Inl ErrTaskRunAlreadyQueued, demo_tx_queued)"
proof -
  have kt: "Encode 1 = Some ''0000000000000001''"
    by code_simp
  have none: "manualRuns demo_tx 1 = Inr []"
    by code_simp
  have one: "manualRuns demo_tx_queued 1 = Inr [demo_forced]"
    by code_simp
  have fmt: "time_Format demo_library (time_Unix 1546300860) = ''2019-01-01T00:01:00Z''"
    by code_simp
  have r: "demo_forced = \<lparr>Run.ID = 5, TaskID = 1, Status = [],
                  ScheduledFor = time_Format demo_library (time_Unix 1546300860), StartedAt = [],
                  FinishedAt = [], RequestedAt = time_Format demo_library 1546300810000000000,
                  Log = []\<rparr>"
    by code_simp
  have r': "\<lparr>Run.ID = 6, TaskID = 1, Status = [],
                  ScheduledFor = time_Format demo_library (time_Unix 1546300860), StartedAt = [],
                  FinishedAt = [], RequestedAt = time_Format demo_library 1546300830000000000,
                  Log = []\<rparr> = \<lparr>Run.ID = 6, TaskID = 1, Status = [],
                  ScheduledFor = time_Format demo_library (time_Unix 1546300860), StartedAt = [],
                  FinishedAt = [], RequestedAt = time_Format demo_library 1546300830000000000,
                  Log = []\<rparr>"
    by simp
  have st: "demo_tx\<lparr>taskRunBucket :=
               Put (taskRunBucket demo_tx) (''0000000000000001'' @ ''/manualRuns'')
                 (JRuns ([] @ [demo_forced]))\<rparr>
          = demo_tx\<lparr>taskRunBucket := [(''0000000000000001/manualRuns'', JRuns [demo_forced])]\<rparr>"
    by code_simp
  have sf: "Run.ScheduledFor demo_forced = ''2019-01-01T00:01:00Z''"
    by code_simp
  show ?thesis
    using forceRun_dedup [OF kt none r, of 1546300830000000000 6]
      forceRun_dedup [OF kt one r', of 1546300830000000000 6] st
    by (auto simp: fmt sf)
qed

text \<open>
  C10. \<open>ForceRun\<close> does not read the task. Take a valid identifier under which no task is
  stored, so that \<open>findTaskByID\<close> fails with task-not-found, and a readable queue
  \<open>runs\<close>. Then \<open>ForceRun\<close> does not fail for want of the task: it succeeds with the new
  run \<open>r\<close> and the queue under that identifier becomes \<open>runs\<close> followed by \<open>r\<close>, the one
  exception being the conflict error of a time that is already queued; and its result
  is the same whatever the bucket of the tasks holds.
\<close>

theorem forceRun_needs_no_task:
  assumes kt: "Encode taskID = Some kt"
    and absent: "Get (taskBucket tx) kt = Inl ErrKeyNotFound"
    and runs: "manualRuns tx taskID = Inr runs"
    and r: "r = \<lparr>Run.ID = newID, TaskID = taskID, Status = [],
                  ScheduledFor = time_Format e (time_Unix t), StartedAt = [],
                  FinishedAt = [], RequestedAt = time_Format e wall, Log = []\<rparr>"
  shows "findTaskByID e tx taskID = Inl backend_ErrTaskNotFound
       \<and> fst (ForceRun e taskID t wall newID tx)
           = (if time_Format e (time_Unix t) \<in> Run.ScheduledFor ` set runs
              then Inl ErrTaskRunAlreadyQueued else Inr r)
       \<and> (time_Format e (time_Unix t) \<notin> Run.ScheduledFor ` set runs \<longrightarrow>
            manualRuns (snd (ForceRun e taskID t wall newID tx)) taskID = Inr (runs @ [r]))
       \<and> (\<forall>b. fst (ForceRun e taskID t wall newID (tx\<lparr>taskBucket := b\<rparr>))
                = fst (ForceRun e taskID t wall newID tx))"
proof -
  have nf: "findTaskByID e tx taskID = Inl backend_ErrTaskNotFound"
    using kt absent by (simp add: findTaskByID_def taskKey_def IsNotFound_def)
  have F: "ForceRun e taskID t wall newID tx
      = (if time_Format e (time_Unix t) \<in> Run.ScheduledFor ` set runs
         then (Inl ErrTaskRunAlreadyQueued, tx)
         else (Inr r, tx\<lparr>taskRunBucket :=
                 Put (taskRunBucket tx) (kt @ ''/manualRuns'') (JRuns (runs @ [r]))\<rparr>))"
    by (simp add: ForceRun_def Update_def forceRun_eq [OF kt runs] r)
  have ind: "fst (ForceRun e taskID t wall newID (tx\<lparr>taskBucket := b\<rparr>))
                = fst (ForceRun e taskID t wall newID tx)" for b
    by (simp add: ForceRun_def Update_def forceRun_taskBucket split: sum.splits)
  show ?thesis
    using nf ind by (simp add: F manualRuns_Put [OF kt])
qed

theorem forceRun_needs_no_task_witness:
  "findTaskByID demo_library demo_tx 9 = Inl backend_ErrTaskNotFound
   \<and> fst (ForceRun demo_library 9 1546300860 1546300810000000000 5 demo_tx)
       = Inr (demo_forced\<lparr>Run.TaskID := 9\<rparr>)
   \<and> manualRuns (snd (ForceRun demo_library 9 1546300860 1546300810000000000 5 demo_tx)) 9
       = Inr [demo_forced\<lparr>Run.TaskID := 9\<rparr>]"
proof -
  have kt: "Encode 9 = Some ''0000000000000009''"
    by code_simp
  have absent: "Get (taskBucket demo_tx) ''0000000000000009'' = Inl ErrKeyNotFound"
    by code_simp
  have none: "manualRuns demo_tx 9 = Inr []"
    by code_simp
  have r: "demo_forced\<lparr>Run.TaskID := 9\<rparr> = \<lparr>Run.ID = 5, TaskID = 9, Status = [],
                  ScheduledFor = time_Format demo_library (time_Unix 1546300860), StartedAt = [],
                  FinishedAt = [], RequestedAt = time_Format demo_library 1546300810000000000,
                  Log = []\<rparr>"
    by code_simp
  show ?thesis
    using forceRun_needs_no_task [OF kt absent none r] by simp
qed

subsection \<open>Finishing a run\<close>

text \<open>
  C3. \<open>FinishRun\<close> removes the run and moves the latest-completed pointer forward only.
  Let the run \<open>r\<close> be stored under its key, its \<open>scheduledFor\<close> parse to \<open>rTime\<close>, and
  \<open>lTime\<close> be the parsed \<open>scheduledFor\<close> of the latest-completed run, or the zero time
  when there is none. Then \<open>FinishRun\<close> returns \<open>r\<close>; the run's key is gone; the pointer
  is \<open>r\<close> if \<open>rTime\<close> is strictly after \<open>lTime\<close> and what it was otherwise; every other
  key of the run bucket and the other two buckets are as before. Nothing is asked of
  the status of \<open>r\<close>.
\<close>

theorem finishRun_moves_pointer:
  assumes kt: "Encode taskID = Some kt" and kr: "Encode runID = Some kr"
    and run: "Get (taskRunBucket tx) (kt @ ''/'' @ kr) = Inr (JRun r)"
    and rTime: "time_Parse e (Run.ScheduledFor r) = Some rTime"
    and latest: "findLatestCompleted tx taskID = Inr latest"
    and lTime: "case latest of None \<Rightarrow> lTime = zero_time
                | Some l \<Rightarrow> time_Parse e (Run.ScheduledFor l) = Some lTime"
  shows "fst (FinishRun e taskID runID tx) = Inr r
    \<and> Get (taskRunBucket (snd (FinishRun e taskID runID tx))) (kt @ ''/'' @ kr)
        = Inl ErrKeyNotFound
    \<and> findLatestCompleted (snd (FinishRun e taskID runID tx)) taskID
        = Inr (if lTime < rTime then Some r else latest)
    \<and> (\<forall>k. k \<noteq> kt @ ''/'' @ kr \<and> k \<noteq> kt @ ''/latestCompleted''
         \<longrightarrow> Get (taskRunBucket (snd (FinishRun e taskID runID tx))) k
             = Get (taskRunBucket tx) k)
    \<and> taskBucket (snd (FinishRun e taskID runID tx)) = taskBucket tx
    \<and> taskIndexBucket (snd (FinishRun e taskID runID tx)) = taskIndexBucket tx"
proof -
  let ?rk = "kt @ ''/'' @ kr" and ?lk = "kt @ ''/latestCompleted''"
  let ?b = "if lTime < rTime then Put (taskRunBucket tx) ?lk (JRun r) else taskRunBucket tx"
  have neq: "?rk \<noteq> ?lk"
    using length_Encode [OF kr] by (rule run_key_neq_latest)
  have fin: "finishRun e tx taskID runID = Inr (r, tx\<lparr>taskRunBucket := Delete ?b ?rk\<rparr>)"
    using finishRun_eq [OF kt kr run rTime latest lTime] by simp
  have F: "FinishRun e taskID runID tx = (Inr r, tx\<lparr>taskRunBucket := Delete ?b ?rk\<rparr>)"
    by (simp add: FinishRun_def Update_def fin)
  have old: "Get (taskRunBucket tx) ?lk
           = (case latest of None \<Rightarrow> Inl ErrKeyNotFound | Some l \<Rightarrow> Inr (JRun l))"
    by (rule findLatestCompleted_cases [OF kt latest])
  have ptr: "findLatestCompleted (tx\<lparr>taskRunBucket := Delete ?b ?rk\<rparr>) taskID
        = Inr (if lTime < rTime then Some r else latest)"
    using neq old
    by (simp add: findLatestCompleted_Get [OF kt] Get_Delete Get_Put unmarshalRun_def
        split: option.splits)
  show ?thesis
    using neq ptr by (simp add: F Get_Delete Get_Put)
qed

theorem finishRun_moves_pointer_witness:
  "fst (FinishRun demo_library 1 3 demo_tx_running) = Inr demo_run
   \<and> Get (taskRunBucket (snd (FinishRun demo_library 1 3 demo_tx_running)))
         ''0000000000000001/0000000000000003'' = Inl ErrKeyNotFound
   \<and> findLatestCompleted (snd (FinishRun demo_library 1 3 demo_tx_running)) 1
       = Inr (Some demo_run)
   \<and> fst (FinishRun demo_library 1 3 demo_tx_late) = Inr demo_run
   \<and> findLatestCompleted (snd (FinishRun demo_library 1 3 demo_tx_late)) 1
       = Inr (Some demo_forced)"
proof -
  have kt: "Encode 1 = Some ''0000000000000001''"
    by code_simp
  have kr: "Encode 3 = Some ''0000000000000003''"
    by code_simp
  have rTime: "time_Parse demo_library (Run.ScheduledFor demo_run) = Some 1546300830000000000"
    by code_simp
  have run: "Get (taskRunBucket demo_tx_running) (''0000000000000001'' @ ''/'' @ ''0000000000000003'')
               = Inr (JRun demo_run)"
    by code_simp
  have latest: "findLatestCompleted demo_tx_running 1 = Inr None"
    by code_simp
  have lTime: "case None :: Run option of None \<Rightarrow> zero_time = zero_time
               | Some l \<Rightarrow> time_Parse demo_library (Run.ScheduledFor l) = Some zero_time"
    by simp
  have run': "Get (taskRunBucket demo_tx_late) (''0000000000000001'' @ ''/'' @ ''0000000000000003'')
               = Inr (JRun demo_run)"
    by code_simp
  have latest': "findLatestCompleted demo_tx_late 1 = Inr (Some demo_forced)"
    by code_simp
  have lTime': "case Some demo_forced of None \<Rightarrow> 1546300860000000000 = zero_time
               | Some l \<Rightarrow> time_Parse demo_library (Run.ScheduledFor l) = Some 1546300860000000000"
    by code_simp
  show ?thesis
    using finishRun_moves_pointer [OF kt kr run rTime latest lTime]
      finishRun_moves_pointer [OF kt kr run' rTime latest' lTime']
    by (simp add: zero_time_def)
qed

subsection \<open>Cancelling and retrying\<close>

text \<open>
  C7. The claim: after \<open>CancelRun\<close> succeeds, the record of the run in the run ledger has
  status \<open>canceled\<close>. The code writes the canceled record into the bucket of the tasks,
  under the run's key, and leaves the bucket of the runs as it was: this holds for every
  store and every pair of identifiers. On the task with one run in progress,
  \<open>CancelRun\<close> succeeds and a read of the run still gives status \<open>scheduled\<close>.
\<close>

theorem cancelRun_ledger_unchanged:
  "taskRunBucket (snd (CancelRun taskID runID tx)) = taskRunBucket tx
   \<and> CancelRun 1 3 demo_tx_running
     = (Inr (), demo_tx_running\<lparr>taskBucket :=
          [(''0000000000000001'', JTask demo_task),
           (''0000000000000001/0000000000000003'',
            JRun (demo_run\<lparr>Run.Status := ''canceled''\<rparr>))]\<rparr>)
   \<and> FindRunByID 1 3 (snd (CancelRun 1 3 demo_tx_running)) = Inr demo_run
   \<and> Run.Status demo_run = ''scheduled''"
proof -
  have "taskRunBucket (snd (CancelRun taskID runID tx)) = taskRunBucket tx"
    by (simp add: CancelRun_def Update_def cancelRun_def Let_def split: sum.splits)
  moreover have "CancelRun 1 3 demo_tx_running
     = (Inr (), demo_tx_running\<lparr>taskBucket :=
          [(''0000000000000001'', JTask demo_task),
           (''0000000000000001/0000000000000003'',
            JRun (demo_run\<lparr>Run.Status := ''canceled''\<rparr>))]\<rparr>)"
    by code_simp
  moreover have "FindRunByID 1 3 (snd (CancelRun 1 3 demo_tx_running)) = Inr demo_run"
    by code_simp
  moreover have "Run.Status demo_run = ''scheduled''"
    by code_simp
  ultimately show ?thesis by blast
qed

text \<open>
  C8. The claim: \<open>RetryRun\<close> appends a clean copy of the run to the manual queue also
  when the queue was empty before. The code answers an absent queue key with an error:
  on the task with one run in progress and no queue yet, \<open>RetryRun\<close> of that run fails
  with an internal error and the store is as before.
\<close>

theorem retryRun_empty_queue_fails:
  "FindRunByID 1 3 demo_tx_running = Inr demo_run
   \<and> manualRuns demo_tx_running 1 = Inr []
   \<and> RetryRun 1 3 9 demo_tx_running
        = (Inl (ErrUnexpectedTaskBucketErr ErrKeyNotFound), demo_tx_running)
   \<and> Code (ErrUnexpectedTaskBucketErr ErrKeyNotFound) = Some EInternal"
  by code_simp

subsection \<open>Runs that do not exist\<close>

text \<open>
  C9. The claim: looking up a run that is not in the ledger fails with an error of kind
  not-found, in \<open>FindRunByID\<close> and in every operation that loads the run first, and
  writes nothing. The code tests the store's error the wrong way round: the key that
  is not found is reported as an unexpected bucket error, of kind internal. Run 7 of
  the task does not exist; all six operations fail with that error (and write nothing).
\<close>

theorem findRunByID_missing_run_internal:
  "FindRunByID 1 7 demo_tx = Inl (ErrUnexpectedTaskBucketErr ErrKeyNotFound)
   \<and> Code (ErrUnexpectedTaskBucketErr ErrKeyNotFound) = Some EInternal
   \<and> CancelRun 1 7 demo_tx = (Inl (ErrUnexpectedTaskBucketErr ErrKeyNotFound), demo_tx)
   \<and> RetryRun 1 7 9 demo_tx = (Inl (ErrUnexpectedTaskBucketErr ErrKeyNotFound), demo_tx)
   \<and> UpdateRunState demo_library 1 7 1546300810000000000 RunStarted demo_tx
        = (Inl (ErrUnexpectedTaskBucketErr ErrKeyNotFound), demo_tx)
   \<and> AddRunLog demo_library 1 7 1546300810000000000 ''hello'' demo_tx
        = (Inl (ErrUnexpectedTaskBucketErr ErrKeyNotFound), demo_tx)
   \<and> FinishRun demo_library 1 7 demo_tx
        = (Inl (ErrUnexpectedTaskBucketErr ErrKeyNotFound), demo_tx)"
  by code_simp

end
